theory Spec2Isabelle
  imports Complex_Main "HOL-Library.Multiset" "HOL-Library.Sublist"
begin

section \<open>The review server: data model\<close>

text \<open>
  The server (\<^verbatim>\<open>server/index.js\<close>) is a set of HTTP handlers over a MySQL
  database whose schema is \<^verbatim>\<open>server/schema.sql\<close>. A table is the list of its rows
  in insertion order, a row is a record with the columns of the schema, and a handler is a
  function from the store and the request to the new store and the response. Every
  \<^verbatim>\<open>res.status(..).json(..)\<close> of the source is a value of \<open>response\<close>; an exception of
  a query (a constraint of the schema refusing a row, a statement MySQL does not parse)
  is the \<^verbatim>\<open>catch\<close> branch of the handler, status 500.

  Ids are natural numbers, the integer columns \<^verbatim>\<open>rating\<close>, \<^verbatim>\<open>likes\<close> and
  \<^verbatim>\<open>dislikes\<close> are integers, timestamps are natural numbers (seconds), a string is a
  list of bytes. The columns are prefixed where two tables share a name, with the
  aliases the queries use: \<^verbatim>\<open>u\<close> for users, \<^verbatim>\<open>r\<close> for reviews.
\<close>

record user =
  u_id :: nat
  u_name :: string
  u_email :: string
  u_password :: string
  u_role :: string
  u_created_at :: nat

record review =
  r_id :: nat
  r_user_id :: nat
  rating :: int
  comment :: string
  sentiment_score :: "real option"
  sentiment_label :: "string option"
  likes :: int
  dislikes :: int
  is_flagged :: bool
  r_created_at :: nat

record reaction =
  rr_id :: nat
  review_id :: nat
  user_id :: nat
  reaction_type :: string
  rr_created_at :: nat

text \<open>
  The store: the three tables and the \<^verbatim>\<open>AUTO_INCREMENT\<close> counter of each (the id the
  next inserted row gets).
\<close>

record store =
  users :: "user list"
  reviews :: "review list"
  review_reactions :: "reaction list"
  users_auto_increment :: nat
  reviews_auto_increment :: nat
  review_reactions_auto_increment :: nat

text \<open>The payload of a verified token, \<^verbatim>\<open>req.user\<close>: \<^verbatim>\<open>{id, email, role}\<close>.\<close>

record principal =
  p_id :: nat
  p_email :: string
  p_role :: string

text \<open>
  The rows the listings return: \<^verbatim>\<open>r.*\<close> with \<^verbatim>\<open>u.name as user_name\<close> of the
  \<^verbatim>\<open>LEFT JOIN\<close> (\<open>None\<close> is SQL's NULL), and for the admin listing also
  \<^verbatim>\<open>u.email as user_email\<close>.
\<close>

record review_view = review +
  user_name :: "string option"

record admin_review_view = review_view +
  user_email :: "string option"

record pagination =
  total :: nat
  page :: int
  limit :: int
  totalPages :: int

record user_json =
  j_id :: nat
  j_name :: string
  j_email :: string
  j_role :: string

datatype body =
    Message string
  | AuthJson principal user_json
  | ReviewJson "review_view option"
  | CountsJson nat nat
  | ReviewsJson "review_view list" pagination
  | AdminReviewsJson "admin_review_view list" pagination

record response =
  status :: nat
  body :: body

definition respond :: "nat \<Rightarrow> body \<Rightarrow> response" where
  "respond code b = \<lparr>status = code, body = b\<rparr>"

section \<open>What MySQL does with the queries\<close>

subsection \<open>String comparison\<close>

text \<open>
  The schema names no collation, so the columns have the server's default one, which
  compares without regard to case. The model folds the ASCII letters.
\<close>

definition lower_char :: "char \<Rightarrow> char" where
  "lower_char c =
     (if 65 \<le> (of_char c :: nat) \<and> (of_char c :: nat) \<le> 90
      then char_of ((of_char c :: nat) + 32) else c)"

definition lower :: "string \<Rightarrow> string" where
  "lower s = map lower_char s"

definition sql_eq :: "string \<Rightarrow> string \<Rightarrow> bool" where
  "sql_eq a b = (lower a = lower b)"

text \<open>
  \<^verbatim>\<open>text LIKE pattern\<close>: in the pattern \<^verbatim>\<open>%\<close> stands for any run of characters,
  \<^verbatim>\<open>_\<close> for any one character, and a backslash takes the character after it
  literally (a backslash that ends the pattern stands for itself).
\<close>

function like_match :: "string \<Rightarrow> string \<Rightarrow> bool" where
  "like_match [] s = (s = [])"
| "like_match (p # ps) s =
     (if p = CHR ''%'' then
        like_match ps s \<or> (case s of [] \<Rightarrow> False | _ # s' \<Rightarrow> like_match (p # ps) s')
      else if p = CHR ''_'' then
        (case s of [] \<Rightarrow> False | _ # s' \<Rightarrow> like_match ps s')
      else if p = CHR 0x5C \<and> ps \<noteq> [] then
        (case s of [] \<Rightarrow> False
         | c # s' \<Rightarrow> lower_char (hd ps) = lower_char c \<and> like_match (tl ps) s')
      else
        (case s of [] \<Rightarrow> False
         | c # s' \<Rightarrow> lower_char p = lower_char c \<and> like_match ps s'))"
  by pat_completeness auto
termination
  by (relation "measure (\<lambda>(p, s). length p + length s)") auto

subsection \<open>Inserting rows\<close>

text \<open>
  An \<^verbatim>\<open>INSERT\<close> returns the new store and the id of the row
  (\<^verbatim>\<open>result.insertId\<close>), or \<open>None\<close> when a constraint of the schema refuses the
  row and the query throws. The constraints of \<^verbatim>\<open>users\<close>: \<^verbatim>\<open>name VARCHAR(100)\<close>,
  \<^verbatim>\<open>email VARCHAR(100) UNIQUE\<close>, \<^verbatim>\<open>password VARCHAR(255)\<close>.
\<close>

definition insert_user ::
  "store \<Rightarrow> nat \<Rightarrow> string \<Rightarrow> string \<Rightarrow> string \<Rightarrow> string \<Rightarrow> (store \<times> nat) option" where
  "insert_user st now name email password role =
     (if length name > 100 \<or> length email > 100 \<or> length password > 255
         \<or> (\<exists>u \<in> set (users st). sql_eq (u_email u) email)
      then None
      else
        let insertId = users_auto_increment st;
            row = \<lparr>u_id = insertId, u_name = name, u_email = email, u_password = password,
                   u_role = role, u_created_at = now\<rparr>
        in Some (st\<lparr>users := users st @ [row], users_auto_increment := Suc insertId\<rparr>,
                 insertId))"


text \<open>
  The constraints of \<^verbatim>\<open>review_reactions\<close>: \<^verbatim>\<open>review_id\<close> references a review,
  \<^verbatim>\<open>user_id\<close> references a user, \<^verbatim>\<open>reaction_type ENUM('like', 'dislike')\<close>,
  \<^verbatim>\<open>UNIQUE KEY unique_reaction (review_id, user_id)\<close>.
\<close>

definition insert_reaction ::
  "store \<Rightarrow> nat \<Rightarrow> nat \<Rightarrow> nat \<Rightarrow> string \<Rightarrow> (store \<times> nat) option" where
  "insert_reaction st now reviewId userId reactionType =
     (if \<not> (\<exists>r \<in> set (reviews st). r_id r = reviewId)
         \<or> \<not> (\<exists>u \<in> set (users st). u_id u = userId)
         \<or> \<not> (reactionType = ''like'' \<or> reactionType = ''dislike'')
         \<or> (\<exists>x \<in> set (review_reactions st). review_id x = reviewId \<and> user_id x = userId)
      then None
      else
        let insertId = review_reactions_auto_increment st;
            row = \<lparr>rr_id = insertId, review_id = reviewId, user_id = userId,
                   reaction_type = reactionType, rr_created_at = now\<rparr>
        in Some (st\<lparr>review_reactions := review_reactions st @ [row],
                    review_reactions_auto_increment := Suc insertId\<rparr>,
                 insertId))"

subsection \<open>The subqueries and the join of the listings\<close>

text \<open>
  \<^verbatim>\<open>SELECT COUNT(*) FROM review_reactions WHERE review_id = ? AND reaction_type = ?\<close>
\<close>

definition count_reactions :: "store \<Rightarrow> nat \<Rightarrow> string \<Rightarrow> nat" where
  "count_reactions st reviewId ty =
     length (filter (\<lambda>x. review_id x = reviewId \<and> reaction_type x = ty) (review_reactions st))"

text \<open>
  \<^verbatim>\<open>LEFT JOIN users u ON r.user_id = u.id\<close>: the user of the review, NULL columns
  when there is none (\<^verbatim>\<open>id\<close> is the primary key of \<^verbatim>\<open>users\<close>, so at most one user
  joins).
\<close>

definition join_user :: "store \<Rightarrow> review \<Rightarrow> user option" where
  "join_user st r =
     (case filter (\<lambda>u. u_id u = r_user_id r) (users st) of [] \<Rightarrow> None | u # _ \<Rightarrow> Some u)"

text \<open>\<^verbatim>\<open>SELECT r.*, u.name as user_name\<close>\<close>

definition select_review_view :: "store \<Rightarrow> review \<Rightarrow> review_view" where
  "select_review_view st r =
     \<lparr>r_id = r_id r, r_user_id = r_user_id r, rating = rating r, comment = comment r,
      sentiment_score = sentiment_score r, sentiment_label = sentiment_label r,
      likes = likes r, dislikes = dislikes r, is_flagged = is_flagged r,
      r_created_at = r_created_at r,
      user_name = map_option u_name (join_user st r)\<rparr>"

text \<open>
  The rows of the public listing select \<^verbatim>\<open>r.*\<close>, the user's name, and then the two
  counting subqueries \<^verbatim>\<open>as likes\<close> and \<^verbatim>\<open>as dislikes\<close>. The result set so has two
  columns named \<^verbatim>\<open>likes\<close> (the stored column of \<^verbatim>\<open>r.*\<close>, then the subquery); in
  the row object the driver builds, the later column overwrites the earlier one.
\<close>

definition select_listing_row :: "store \<Rightarrow> review \<Rightarrow> review_view" where
  "select_listing_row st r =
     (select_review_view st r)
       \<lparr>likes := int (count_reactions st (r_id r) ''like''),
        dislikes := int (count_reactions st (r_id r) ''dislike'')\<rparr>"

definition select_admin_row :: "store \<Rightarrow> review \<Rightarrow> admin_review_view" where
  "select_admin_row st r =
     \<lparr>r_id = r_id r, r_user_id = r_user_id r, rating = rating r, comment = comment r,
      sentiment_score = sentiment_score r, sentiment_label = sentiment_label r,
      likes = int (count_reactions st (r_id r) ''like''),
      dislikes = int (count_reactions st (r_id r) ''dislike''),
      is_flagged = is_flagged r, r_created_at = r_created_at r,
      user_name = map_option u_name (join_user st r),
      user_email = map_option u_email (join_user st r)\<rparr>"

subsection \<open>ORDER BY, LIMIT and OFFSET\<close>



text \<open>
  \<^verbatim>\<open>LIMIT ? OFFSET ?\<close> takes non-negative integers; with a negative number the
  statement is a syntax error and the query throws (\<open>None\<close>).
\<close>

definition limit_offset :: "int \<Rightarrow> int \<Rightarrow> 'a list \<Rightarrow> 'a list option" where
  "limit_offset lmt off rows =
     (if lmt < 0 \<or> off < 0 then None else Some (take (nat lmt) (drop (nat off) rows)))"

section \<open>The handlers\<close>

text \<open>
  A handler behind \<^verbatim>\<open>authenticateToken\<close> takes \<^verbatim>\<open>req.user\<close>, the payload of the
  verified token; the verification itself is the token library's. Ids in the path and
  the query arrive as the numbers MySQL compares them as.
\<close>

subsection \<open>The admin middleware\<close>

text \<open>\<open>None\<close> is \<^verbatim>\<open>next()\<close>: the request goes on to the handler.\<close>

definition isAdmin :: "principal \<Rightarrow> response option" where
  "isAdmin req_user =
     (if p_role req_user \<noteq> ''admin''
      then Some (respond 403 (Message ''Admin access required''))
      else None)"

subsection \<open>POST /api/auth/register\<close>

text \<open>
  \<open>bcrypt_hash\<close> is \<^verbatim>\<open>bcrypt.hash(password, 10)\<close>. The token of the response is
  given by its payload.
\<close>

definition register ::
  "(string \<Rightarrow> string) \<Rightarrow> nat \<Rightarrow> store \<Rightarrow> string \<Rightarrow> string \<Rightarrow> string \<Rightarrow> store \<times> response" where
  "register bcrypt_hash now st name email password =
     (let existingUsers = filter (\<lambda>u. sql_eq (u_email u) email) (users st)
      in if length existingUsers > 0
         then (st, respond 400 (Message ''Email already registered''))
         else
           let hashedPassword = bcrypt_hash password
           in case insert_user st now name email hashedPassword ''user'' of
                None \<Rightarrow> (st, respond 500 (Message ''Server error during registration''))
              | Some (st', insertId) \<Rightarrow>
                  (st', respond 201
                     (AuthJson \<lparr>p_id = insertId, p_email = email, p_role = ''user''\<rparr>
                        \<lparr>j_id = insertId, j_name = name, j_email = email,
                         j_role = ''user''\<rparr>)))"

subsection \<open>GET /api/reviews\<close>

text \<open>
  \<^verbatim>\<open>parseInt(req.query.page) || 1\<close>: the handler takes what \<^verbatim>\<open>parseInt\<close> returns,
  \<open>None\<close> for NaN (the parameter is absent or no number). NaN and 0 are falsy, so
  both give the default.
\<close>

definition or_default :: "int option \<Rightarrow> int \<Rightarrow> int" where
  "or_default parsed d = (case parsed of None \<Rightarrow> d | Some n \<Rightarrow> if n = 0 then d else n)"

text \<open>\<^verbatim>\<open>Math.ceil(total / limit)\<close>; the limit is never 0 here.\<close>

definition total_pages :: "nat \<Rightarrow> int \<Rightarrow> int" where
  "total_pages n lmt = \<lceil>real n / real_of_int lmt\<rceil>"

text \<open>
  The count query runs first, then the listing query; an exception of either is the
  \<^verbatim>\<open>catch\<close> branch. \<open>userId\<close> is \<^verbatim>\<open>req.query.userId\<close>, \<open>None\<close> when it is absent
  or empty.
\<close>

definition listReviews ::
  "(review list \<Rightarrow> review list) \<Rightarrow> store \<Rightarrow> int option \<Rightarrow> int option \<Rightarrow> nat option \<Rightarrow> response" where
  "listReviews ord st query_page query_limit userId =
     (let page' = or_default query_page 1;
          limit' = or_default query_limit 6;
          offset = (page' - 1) * limit';
          matching = (case userId of
                        None \<Rightarrow> reviews st
                      | Some uid \<Rightarrow> filter (\<lambda>r. r_user_id r = uid) (reviews st));
          total' = length matching
      in case limit_offset limit' offset (ord matching) of
           None \<Rightarrow> respond 500 (Message ''Server error'')
         | Some rows \<Rightarrow>
             respond 200
               (ReviewsJson (map (select_listing_row st) rows)
                  \<lparr>total = total', page = page', limit = limit',
                   totalPages = total_pages total' limit'\<rparr>))"

subsection \<open>POST /api/reviews\<close>




subsection \<open>DELETE /api/reviews/:id\<close>

definition deleteReview :: "store \<Rightarrow> principal \<Rightarrow> nat \<Rightarrow> store \<times> response" where
  "deleteReview st req_user reviewId =
     (case filter (\<lambda>r. r_id r = reviewId) (reviews st) of
        [] \<Rightarrow> (st, respond 404 (Message ''Review not found''))
      | r # _ \<Rightarrow>
          if p_role req_user \<noteq> ''admin'' \<and> r_user_id r \<noteq> p_id req_user
          then (st, respond 403 (Message ''Not authorized to delete this review''))
          else
            let st1 = st\<lparr>review_reactions :=
                          filter (\<lambda>x. review_id x \<noteq> reviewId) (review_reactions st)\<rparr>;
                st2 = st1\<lparr>reviews := filter (\<lambda>r. r_id r \<noteq> reviewId) (reviews st1)\<rparr>
            in (st2, respond 200 (Message ''Review deleted successfully'')))"

subsection \<open>POST /api/reviews/:id/reactions\<close>

text \<open>
  \<^verbatim>\<open>UPDATE review_reactions SET reaction_type = ? WHERE review_id = ? AND user_id = ?\<close>
\<close>

definition update_reaction_type :: "store \<Rightarrow> string \<Rightarrow> nat \<Rightarrow> nat \<Rightarrow> store" where
  "update_reaction_type st reactionType reviewId userId =
     st\<lparr>review_reactions :=
          map (\<lambda>x. if review_id x = reviewId \<and> user_id x = userId
                   then x\<lparr>reaction_type := reactionType\<rparr> else x)
              (review_reactions st)\<rparr>"

definition react :: "nat \<Rightarrow> store \<Rightarrow> principal \<Rightarrow> nat \<Rightarrow> string \<Rightarrow> store \<times> response" where
  "react now st req_user reviewId reactionType =
     (let userId = p_id req_user
      in if reactionType \<notin> set [''like'', ''dislike'']
         then (st, respond 400 (Message ''Invalid reaction type''))
         else if filter (\<lambda>r. r_id r = reviewId) (reviews st) = []
         then (st, respond 404 (Message ''Review not found''))
         else
           let existingReactions =
                 filter (\<lambda>x. review_id x = reviewId \<and> user_id x = userId)
                        (review_reactions st);
               written =
                 (if length existingReactions > 0
                  then Some (update_reaction_type st reactionType reviewId userId)
                  else map_option fst (insert_reaction st now reviewId userId reactionType))
           in case written of
                None \<Rightarrow> (st, respond 500 (Message ''Server error''))
              | Some st' \<Rightarrow>
                  (st', respond 200
                     (CountsJson (count_reactions st' reviewId ''like'')
                                 (count_reactions st' reviewId ''dislike''))))"

subsection \<open>GET /api/admin/reviews\<close>

text \<open>
  \<open>query_search\<close> is \<^verbatim>\<open>req.query.search\<close>, \<open>None\<close> when absent;
  \<^verbatim>\<open>req.query.search || ''\<close> makes the absent term the empty one. The pattern of the
  \<^verbatim>\<open>LIKE\<close> is the term between two \<^verbatim>\<open>%\<close>.
\<close>

definition searchReviews ::
  "(review list \<Rightarrow> review list) \<Rightarrow> store \<Rightarrow> principal \<Rightarrow> int option \<Rightarrow> int option
     \<Rightarrow> string option \<Rightarrow> response" where
  "searchReviews ord st req_user query_page query_limit query_search =
     (case isAdmin req_user of
        Some refused \<Rightarrow> refused
      | None \<Rightarrow>
          let page' = or_default query_page 1;
              limit' = or_default query_limit 10;
              offset = (page' - 1) * limit';
              search = (case query_search of None \<Rightarrow> [] | Some s \<Rightarrow> s);
              matching = filter (\<lambda>r. like_match (''%'' @ search @ ''%'') (comment r))
                                (reviews st);
              total' = length matching
          in case limit_offset limit' offset (ord matching) of
               None \<Rightarrow> respond 500 (Message ''Server error'')
             | Some rows \<Rightarrow>
                 respond 200
                   (AdminReviewsJson (map (select_admin_row st) rows)
                      \<lparr>total = total', page = page', limit = limit',
                       totalPages = total_pages total' limit'\<rparr>))"

subsection \<open>PUT /api/admin/reviews/:id/flag\<close>

definition setFlag :: "store \<Rightarrow> principal \<Rightarrow> nat \<Rightarrow> bool \<Rightarrow> store \<times> response" where
  "setFlag st req_user reviewId isFlagged =
     (case isAdmin req_user of
        Some refused \<Rightarrow> (st, refused)
      | None \<Rightarrow>
          (st\<lparr>reviews := map (\<lambda>r. if r_id r = reviewId then r\<lparr>is_flagged := isFlagged\<rparr> else r)
                             (reviews st)\<rparr>,
           respond 200 (Message ''Review flag status updated'')))"

section \<open>A store to run the handlers on\<close>

text \<open>
  The sample rows of \<^verbatim>\<open>schema.sql\<close>: the admin and two users, four reviews and
  four reactions. The schema inserts them in one script, so the reviews share their
  creation time.
\<close>

definition sample_users :: "user list" where
  "sample_users =
     [\<lparr>u_id = 1, u_name = ''Shaibin K B'', u_email = ''shaibinkb16@gmail.com'',
       u_password = ''$2b$10$Inhm'', u_role = ''admin'', u_created_at = 0\<rparr>,
      \<lparr>u_id = 2, u_name = ''John Doe'', u_email = ''john@example.com'',
       u_password = ''$2a$10$X7Ur'', u_role = ''user'', u_created_at = 0\<rparr>,
      \<lparr>u_id = 3, u_name = ''Jane Smith'', u_email = ''jane@example.com'',
       u_password = ''$2a$10$X7Ur'', u_role = ''user'', u_created_at = 0\<rparr>]"

definition sample_review :: "nat \<Rightarrow> nat \<Rightarrow> int \<Rightarrow> string \<Rightarrow> real \<Rightarrow> string \<Rightarrow> review" where
  "sample_review i uid stars c sc lb =
     \<lparr>r_id = i, r_user_id = uid, rating = stars, comment = c, sentiment_score = Some sc,
      sentiment_label = Some lb, likes = 0, dislikes = 0, is_flagged = False,
      r_created_at = 0\<rparr>"

definition sample_reviews :: "review list" where
  "sample_reviews =
     [sample_review 1 2 5 ''The quality is outstanding.'' 0.85 ''positive'',
      sample_review 2 3 4 ''Good product overall.'' 0.65 ''positive'',
      sample_review 3 2 3 ''The product is okay.'' 0.45 ''neutral'',
      sample_review 4 3 2 ''I was disappointed with the Quality.'' 0.25 ''negative'']"

definition sample_reaction :: "nat \<Rightarrow> nat \<Rightarrow> nat \<Rightarrow> string \<Rightarrow> reaction" where
  "sample_reaction i rid uid ty =
     \<lparr>rr_id = i, review_id = rid, user_id = uid, reaction_type = ty, rr_created_at = 0\<rparr>"

definition sample_store :: store where
  "sample_store =
     \<lparr>users = sample_users, reviews = sample_reviews,
      review_reactions =
        [sample_reaction 1 1 3 ''like'', sample_reaction 2 1 2 ''like'',
         sample_reaction 3 2 2 ''like'', sample_reaction 4 3 3 ''dislike''],
      users_auto_increment = 4, reviews_auto_increment = 5,
      review_reactions_auto_increment = 5\<rparr>"

definition admin_principal :: principal where
  "admin_principal = \<lparr>p_id = 1, p_email = ''shaibinkb16@gmail.com'', p_role = ''admin''\<rparr>"

definition john :: principal where
  "john = \<lparr>p_id = 2, p_email = ''john@example.com'', p_role = ''user''\<rparr>"

definition jane :: principal where
  "jane = \<lparr>p_id = 3, p_email = ''jane@example.com'', p_role = ''user''\<rparr>"

lemmas sample_defs = sample_store_def sample_users_def sample_reviews_def sample_review_def
  sample_reaction_def admin_principal_def john_def jane_def

section \<open>Runs of calls, and what a response lists\<close>

text \<open>
  The \<^verbatim>\<open>UNIQUE KEY unique_reaction (review_id, user_id)\<close> of the schema, as a
  property of a store.
\<close>

definition unique_reaction :: "store \<Rightarrow> bool" where
  "unique_reaction st = distinct (map (\<lambda>x. (review_id x, user_id x)) (review_reactions st))"

text \<open>The reactions of one user to one review.\<close>

definition reactions_of :: "store \<Rightarrow> nat \<Rightarrow> nat \<Rightarrow> reaction list" where
  "reactions_of st reviewId userId =
     filter (\<lambda>x. review_id x = reviewId \<and> user_id x = userId) (review_reactions st)"

text \<open>
  One principal reacting to one review several times, one request after the other: each
  call has its time and its reaction type and runs on the store the call before it
  left. The run returns the last store and the responses in order.
\<close>

fun react_all ::
  "store \<Rightarrow> principal \<Rightarrow> nat \<Rightarrow> (nat \<times> string) list \<Rightarrow> store \<times> response list" where
  "react_all st req_user reviewId [] = (st, [])"
| "react_all st req_user reviewId ((now, reactionType) # calls) =
     (let (st1, r) = react now st req_user reviewId reactionType;
          (st2, rs) = react_all st1 req_user reviewId calls
      in (st2, r # rs))"

definition two_calls :: "(nat \<times> string) list" where
  "two_calls = [(10, ''like''), (11, ''dislike'')]"

text \<open>The reviews a listing response carries, and its pagination block.\<close>

definition reviews_of :: "response \<Rightarrow> review_view list" where
  "reviews_of resp = (case body resp of ReviewsJson items _ \<Rightarrow> items | _ \<Rightarrow> [])"

definition admin_reviews_of :: "response \<Rightarrow> admin_review_view list" where
  "admin_reviews_of resp = (case body resp of AdminReviewsJson items _ \<Rightarrow> items | _ \<Rightarrow> [])"

definition pagination_of :: "response \<Rightarrow> pagination option" where
  "pagination_of resp =
     (case body resp of ReviewsJson _ pg \<Rightarrow> Some pg | AdminReviewsJson _ pg \<Rightarrow> Some pg
      | _ \<Rightarrow> None)"

text \<open>
  What the examples run the handlers with: a password hash, a random sequence, and an
  ordering MySQL may apply, the stable sort of the rows by descending creation time
  (rows of equal creation time stay in table order).
\<close>

definition sample_hash :: "string \<Rightarrow> string" where
  "sample_hash password = ''$2b$10$'' @ password"


definition stable_order :: "review list \<Rightarrow> review list" where
  "stable_order rs = sort_key (\<lambda>r. - int (r_created_at r)) rs"

lemmas eval_defs = react_def insert_reaction_def update_reaction_type_def count_reactions_def
  respond_def Let_def listReviews_def searchReviews_def isAdmin_def or_default_def
  limit_offset_def reviews_of_def admin_reviews_of_def pagination_of_def total_pages_def








section \<open>Properties of the handlers\<close>

subsection \<open>Selecting by a key\<close>

lemma filter_unique_key:
  "distinct (map f xs) \<Longrightarrow> x \<in> set xs \<Longrightarrow> filter (\<lambda>y. f y = f x) xs = [x]"
proof (induction xs)
  case Nil
  then show ?case by simp
next
  case (Cons a xs)
  show ?case
  proof (cases "a = x")
    case True
    from Cons.prems True have "f x \<notin> f ` set xs" by simp
    then have "\<forall>y \<in> set xs. f y \<noteq> f x" by (metis imageI)
    then have "filter (\<lambda>y. f y = f x) xs = []" by (simp add: filter_empty_conv)
    with True show ?thesis by simp
  next
    case False
    with Cons.prems have "x \<in> set xs" "f a \<noteq> f x" by auto
    with Cons show ?thesis by simp
  qed
qed

subsection \<open>Deleting a review\<close>

text \<open>
  Claim C6. In a store whose review ids are distinct (\<^verbatim>\<open>id\<close> is the primary key of
  \<^verbatim>\<open>reviews\<close>), \<open>deleteReview\<close> answers 404 and leaves the store as it is when no
  review has the id; when a review has the id and the principal is neither an admin nor
  its author, it answers 403 and leaves the store as it is; when the principal is an
  admin or the author, it answers 200, and the new store is the old one without the
  review and without every reaction that references it. Deleting the same id again,
  by any principal, then answers 404.
\<close>

theorem deleteReview_outcomes:
  assumes pk: "distinct (map r_id (reviews st))"
  shows "(\<not> (\<exists>r \<in> set (reviews st). r_id r = reviewId) \<longrightarrow>
            deleteReview st req_user reviewId = (st, respond 404 (Message ''Review not found'')))
       \<and> (\<forall>r \<in> set (reviews st). r_id r = reviewId \<longrightarrow>
            (if p_role req_user = ''admin'' \<or> p_id req_user = r_user_id r
             then (\<exists>st'. deleteReview st req_user reviewId =
                           (st', respond 200 (Message ''Review deleted successfully''))
                    \<and> reviews st' = filter (\<lambda>r. r_id r \<noteq> reviewId) (reviews st)
                    \<and> review_reactions st' =
                        filter (\<lambda>x. review_id x \<noteq> reviewId) (review_reactions st)
                    \<and> users st' = users st
                    \<and> deleteReview st' anyone reviewId =
                        (st', respond 404 (Message ''Review not found'')))
             else deleteReview st req_user reviewId =
                    (st, respond 403 (Message ''Not authorized to delete this review''))))"
proof (intro conjI impI ballI)
  assume "\<not> (\<exists>r \<in> set (reviews st). r_id r = reviewId)"
  then have "filter (\<lambda>r. r_id r = reviewId) (reviews st) = []"
    by (simp add: filter_empty_conv)
  then show "deleteReview st req_user reviewId = (st, respond 404 (Message ''Review not found''))"
    by (simp add: deleteReview_def)
next
  fix r
  assume r: "r \<in> set (reviews st)" and rid: "r_id r = reviewId"
  from filter_unique_key [OF pk r] rid
  have sel: "filter (\<lambda>y. r_id y = reviewId) (reviews st) = [r]" by simp
  have gone: "filter (\<lambda>y. r_id y = reviewId) (filter (\<lambda>r. r_id r \<noteq> reviewId) (reviews st)) = []"
    by (simp add: filter_empty_conv)
  show "if p_role req_user = ''admin'' \<or> p_id req_user = r_user_id r
        then (\<exists>st'. deleteReview st req_user reviewId =
                      (st', respond 200 (Message ''Review deleted successfully''))
               \<and> reviews st' = filter (\<lambda>r. r_id r \<noteq> reviewId) (reviews st)
               \<and> review_reactions st' =
                   filter (\<lambda>x. review_id x \<noteq> reviewId) (review_reactions st)
               \<and> users st' = users st
               \<and> deleteReview st' anyone reviewId =
                   (st', respond 404 (Message ''Review not found'')))
        else deleteReview st req_user reviewId =
               (st, respond 403 (Message ''Not authorized to delete this review''))"
    using sel gone by (auto simp add: deleteReview_def Let_def)
qed

text \<open>
  On the sample store: review 99 does not exist; Jane is not the author of review 1;
  John is; the admin deletes review 1 with its two reactions, and a second delete
  finds nothing.
\<close>

theorem deleteReview_outcomes_witness:
  "deleteReview sample_store john 99 = (sample_store, respond 404 (Message ''Review not found''))
   \<and> deleteReview sample_store jane 1 =
       (sample_store, respond 403 (Message ''Not authorized to delete this review''))
   \<and> snd (deleteReview sample_store john 1) =
       respond 200 (Message ''Review deleted successfully'')
   \<and> map r_id (reviews (fst (deleteReview sample_store admin_principal 1))) = [2, 3, 4]
   \<and> map review_id (review_reactions (fst (deleteReview sample_store admin_principal 1))) = [2, 3]
   \<and> snd (deleteReview (fst (deleteReview sample_store admin_principal 1)) admin_principal 1) =
       respond 404 (Message ''Review not found'')"
  using deleteReview_outcomes [of sample_store 99 john jane]
    deleteReview_outcomes [of sample_store 1 jane jane]
    deleteReview_outcomes [of sample_store 1 john jane]
    deleteReview_outcomes [of sample_store 1 admin_principal admin_principal]
  by (simp add: sample_defs deleteReview_def respond_def)

subsection \<open>Reacting to a review\<close>

text \<open>
  Claim C10. A reaction type other than \<^verbatim>\<open>like\<close> and \<^verbatim>\<open>dislike\<close> is answered
  with 400 before any query runs: whatever the store holds (so also when the review
  does not exist), the response is the same and the store is returned as it was.
\<close>

theorem react_invalid_type:
  "reactionType \<noteq> ''like'' \<Longrightarrow> reactionType \<noteq> ''dislike'' \<Longrightarrow>
   react now st req_user reviewId reactionType =
     (st, respond 400 (Message ''Invalid reaction type''))"
  by (simp add: react_def)

text \<open>An invalid type on review 99, which the sample store does not hold.\<close>

theorem react_invalid_type_witness:
  "react 10 sample_store john 99 ''love'' =
     (sample_store, respond 400 (Message ''Invalid reaction type''))
   \<and> filter (\<lambda>r. r_id r = 99) (reviews sample_store) = []"
  using react_invalid_type [of "''love''" 10 sample_store john 99]
  by (simp add: sample_defs)

lemma filter_key_le1:
  "distinct (map f xs) \<Longrightarrow> length (filter (\<lambda>x. f x = k) xs) \<le> 1"
proof (induction xs)
  case Nil
  then show ?case by simp
next
  case (Cons a xs)
  show ?case
  proof (cases "f a = k")
    case True
    with Cons.prems have "k \<notin> f ` set xs" by auto
    then have "filter (\<lambda>x. f x = k) xs = []" by (auto simp: filter_empty_conv)
    with True show ?thesis by simp
  next
    case False
    with Cons show ?thesis by simp
  qed
qed

lemma filter_map_update:
  assumes "\<And>x. P (g x) = P x"
  shows "filter P (map (\<lambda>x. if P x then g x else x) xs) = map g (filter P xs)"
  by (induction xs) (simp_all add: assms)

lemma reactions_of_key:
  "reactions_of st reviewId userId =
     filter (\<lambda>x. (review_id x, user_id x) = (reviewId, userId)) (review_reactions st)"
  by (simp add: reactions_of_def)

lemma react_step:
  assumes uniq: "unique_reaction st"
    and step: "react now st req_user reviewId reactionType = (st1, r)"
    and ok: "status r = 200"
  shows "unique_reaction st1 \<and>
         (\<exists>x. reactions_of st1 reviewId (p_id req_user) = [x] \<and> reaction_type x = reactionType)"
proof (cases "reactions_of st reviewId (p_id req_user) = []")
  case True
  from step ok True obtain st' i where
    ins: "insert_reaction st now reviewId (p_id req_user) reactionType = Some (st', i)"
    and st1: "st1 = st'"
    by (auto simp add: react_def Let_def respond_def reactions_of_def
             split: if_splits option.splits)
  from ins have rows: "review_reactions st' = review_reactions st @
      [\<lparr>rr_id = review_reactions_auto_increment st, review_id = reviewId,
        user_id = p_id req_user, reaction_type = reactionType, rr_created_at = now\<rparr>]"
    by (auto simp add: insert_reaction_def Let_def split: if_splits)
  from True have fresh: "(reviewId, p_id req_user) \<notin>
      (\<lambda>x. (review_id x, user_id x)) ` set (review_reactions st)"
    by (auto simp add: reactions_of_def filter_empty_conv)
  from uniq fresh rows have "unique_reaction st'"
    by (simp add: unique_reaction_def)
  moreover from True rows have "\<exists>x. reactions_of st' reviewId (p_id req_user) = [x] \<and>
      reaction_type x = reactionType"
    by (simp add: reactions_of_def)
  ultimately show ?thesis using st1 by simp
next
  case False
  with step ok have st1: "st1 = update_reaction_type st reactionType reviewId (p_id req_user)"
    by (auto simp add: react_def Let_def respond_def reactions_of_def
             split: if_splits option.splits)
  have keys: "map (\<lambda>x. (review_id x, user_id x)) (review_reactions st1) =
              map (\<lambda>x. (review_id x, user_id x)) (review_reactions st)"
    by (simp add: st1 update_reaction_type_def)
  have sel: "reactions_of st1 reviewId (p_id req_user) =
             map (\<lambda>x. x\<lparr>reaction_type := reactionType\<rparr>) (reactions_of st reviewId (p_id req_user))"
    unfolding st1 update_reaction_type_def reactions_of_def
    using filter_map_update [of "\<lambda>x. review_id x = reviewId \<and> user_id x = p_id req_user"
        "\<lambda>x. x\<lparr>reaction_type := reactionType\<rparr>" "review_reactions st"]
    by simp
  from uniq have "length (reactions_of st reviewId (p_id req_user)) \<le> 1"
    unfolding reactions_of_key unique_reaction_def by (rule filter_key_le1)
  with False obtain y where "reactions_of st reviewId (p_id req_user) = [y]"
    by (cases "reactions_of st reviewId (p_id req_user)") auto
  with sel have "\<exists>x. reactions_of st1 reviewId (p_id req_user) = [x] \<and> reaction_type x = reactionType"
    by simp
  moreover from uniq keys have "unique_reaction st1" by (simp add: unique_reaction_def)
  ultimately show ?thesis by simp
qed

text \<open>
  Claim C1. Start from a store that satisfies the unique key of \<^verbatim>\<open>review_reactions\<close>
  and let one principal react to one review any number of times, at least once, every
  call answered with 200. Then the last store holds exactly one reaction of that
  principal to that review, and its type is the type of the last call: a repeated
  reaction overwrites the row and adds none.
\<close>

theorem react_sequence:
  assumes "unique_reaction st"
    and "calls \<noteq> []"
    and "react_all st req_user reviewId calls = (st', rs)"
    and "\<forall>r \<in> set rs. status r = 200"
  shows "\<exists>x. filter (\<lambda>x. review_id x = reviewId \<and> user_id x = p_id req_user)
                   (review_reactions st') = [x]
             \<and> reaction_type x = snd (last calls)"
  using assms
proof (induction calls arbitrary: st rs)
  case Nil
  then show ?case by simp
next
  case (Cons c calls)
  obtain now reactionType where c: "c = (now, reactionType)" by (cases c)
  obtain st1 r where step: "react now st req_user reviewId reactionType = (st1, r)"
    by (cases "react now st req_user reviewId reactionType")
  obtain st2 rs' where rest: "react_all st1 req_user reviewId calls = (st2, rs')"
    by (cases "react_all st1 req_user reviewId calls")
  from Cons.prems(3) c step rest have st': "st' = st2" and rs: "rs = r # rs'"
    by simp_all
  from Cons.prems(4) rs have ok: "status r = 200" and oks: "\<forall>r \<in> set rs'. status r = 200"
    by simp_all
  from react_step [OF Cons.prems(1) step ok]
  have uniq1: "unique_reaction st1"
    and one: "\<exists>x. reactions_of st1 reviewId (p_id req_user) = [x] \<and> reaction_type x = reactionType"
    by simp_all
  show ?case
  proof (cases "calls = []")
    case True
    with rest have "st2 = st1" by simp
    with one st' c True show ?thesis by (simp add: reactions_of_def)
  next
    case False
    from rest st' have "react_all st1 req_user reviewId calls = (st', rs')" by simp
    from Cons.IH [OF uniq1 False this oks] False show ?thesis by simp
  qed
qed

text \<open>
  Jane has not reacted to review 2 of the sample store: her like inserts a row, her
  dislike then overwrites it.
\<close>

theorem react_sequence_witness:
  "unique_reaction sample_store
   \<and> map status (snd (react_all sample_store jane 2 two_calls)) = [200, 200]
   \<and> map reaction_type (filter (\<lambda>x. review_id x = 2 \<and> user_id x = 3)
         (review_reactions (fst (react_all sample_store jane 2 two_calls)))) = [''dislike'']"
  using react_sequence [of sample_store two_calls jane 2
      "fst (react_all sample_store jane 2 two_calls)"
      "snd (react_all sample_store jane 2 two_calls)"]
  by (simp add: sample_defs two_calls_def unique_reaction_def react_def insert_reaction_def
        update_reaction_type_def count_reactions_def respond_def Let_def)

subsection \<open>Flagging a review\<close>

text \<open>
  Claim C3, where the handler departs from it. The handler runs the \<^verbatim>\<open>UPDATE\<close>
  without looking the review up first: for an admin and an id no review has, the
  update changes no row and the answer is 200, not 404.
\<close>

theorem setFlag_missing_review:
  "p_role req_user = ''admin'' \<Longrightarrow> \<not> (\<exists>r \<in> set (reviews st). r_id r = reviewId) \<Longrightarrow>
   setFlag st req_user reviewId isFlagged =
     (st, respond 200 (Message ''Review flag status updated''))"
proof -
  assume adm: "p_role req_user = ''admin''"
    and none: "\<not> (\<exists>r \<in> set (reviews st). r_id r = reviewId)"
  from none have "map (\<lambda>r. if r_id r = reviewId then r\<lparr>is_flagged := isFlagged\<rparr> else r)
                      (reviews st) = reviews st"
    by (simp add: map_idI)
  with adm show ?thesis by (simp add: setFlag_def isAdmin_def)
qed

text \<open>The admin flags review 99, which the sample store does not hold.\<close>

theorem setFlag_missing_review_witness:
  "filter (\<lambda>r. r_id r = 99) (reviews sample_store) = []
   \<and> setFlag sample_store admin_principal 99 True =
       (sample_store, respond 200 (Message ''Review flag status updated''))"
  using setFlag_missing_review [of admin_principal sample_store 99 True]
  by (simp add: sample_defs)

subsection \<open>Registering with an email that is taken\<close>

text \<open>
  Claim C5, as the handler has it. When a stored user has the email of the request,
  \<open>register\<close> answers 400 with the message \<^verbatim>\<open>Email already registered\<close> (not the
  500 of the \<^verbatim>\<open>catch\<close> branch) and returns the store as it was: no user is
  inserted.
\<close>

theorem register_duplicate_email:
  "u \<in> set (users st) \<Longrightarrow> u_email u = email \<Longrightarrow>
   register bcrypt_hash now st name email password =
     (st, respond 400 (Message ''Email already registered''))"
proof -
  assume "u \<in> set (users st)" and "u_email u = email"
  then have "u \<in> set (filter (\<lambda>u. sql_eq (u_email u) email) (users st))"
    by (simp add: sql_eq_def)
  then have "filter (\<lambda>u. sql_eq (u_email u) email) (users st) \<noteq> []"
    by (metis empty_iff list.set(1))
  then show ?thesis by (simp add: register_def)
qed

text \<open>John's email is taken in the sample store.\<close>

theorem register_duplicate_email_witness:
  "u_email (users sample_store ! 1) = ''john@example.com''
   \<and> register sample_hash 10 sample_store ''Johnny'' ''john@example.com'' ''secret'' =
       (sample_store, respond 400 (Message ''Email already registered''))"
  using register_duplicate_email [of "users sample_store ! 1" sample_store
      "''john@example.com''" sample_hash 10 "''Johnny''" "''secret''"]
  by (simp add: sample_defs)

text \<open>The status of that response is 400; the claim has 409.\<close>

theorem register_duplicate_email_counterexample:
  "u_email (users sample_store ! 1) = ''john@example.com''
   \<and> status (snd (register sample_hash 10 sample_store ''Johnny'' ''john@example.com'' ''secret''))
       = 400
   \<and> status (snd (register sample_hash 10 sample_store ''Johnny'' ''john@example.com'' ''secret''))
       \<noteq> 409"
  by (simp add: sample_defs register_def sql_eq_def respond_def)

subsection \<open>The like and dislike counts\<close>

lemma likes_listing_row [simp]:
  "likes (select_listing_row st r) = int (count_reactions st (r_id r) ''like'')"
  "dislikes (select_listing_row st r) = int (count_reactions st (r_id r) ''dislike'')"
  "r_id (select_listing_row st r) = r_id r"
  by (simp_all add: select_listing_row_def select_review_view_def)

lemma likes_admin_row [simp]:
  "likes (select_admin_row st r) = int (count_reactions st (r_id r) ''like'')"
  "dislikes (select_admin_row st r) = int (count_reactions st (r_id r) ''dislike'')"
  "r_id (select_admin_row st r) = r_id r"
  by (simp_all add: select_admin_row_def)

lemma reviews_of_listReviews:
  "v \<in> set (reviews_of (listReviews ord st qp ql uid)) \<Longrightarrow>
   \<exists>r. v = select_listing_row st r"
  by (auto simp add: reviews_of_def listReviews_def Let_def respond_def split: option.splits)

lemma admin_reviews_of_searchReviews:
  "v \<in> set (admin_reviews_of (searchReviews ord st p qp ql qs)) \<Longrightarrow>
   \<exists>r. v = select_admin_row st r"
  by (auto simp add: admin_reviews_of_def searchReviews_def isAdmin_def Let_def respond_def
           split: option.splits if_splits)

text \<open>
  Claim C2. The counts \<open>react\<close> returns with a 200 are the numbers of reactions to the
  review with type \<^verbatim>\<open>like\<close> and \<^verbatim>\<open>dislike\<close> in the store after the write. Every
  item of the public and of the admin listing carries as \<open>likes\<close> and \<open>dislikes\<close>
  the numbers of such reactions in the store, whatever the stored columns
  \<^verbatim>\<open>likes\<close> and \<^verbatim>\<open>dislikes\<close> of the review hold.
\<close>

theorem counts_are_live:
  "(react now st req_user reviewId reactionType = (st', resp) \<and> status resp = 200 \<longrightarrow>
      body resp =
        CountsJson
          (length (filter (\<lambda>x. review_id x = reviewId \<and> reaction_type x = ''like'')
                     (review_reactions st')))
          (length (filter (\<lambda>x. review_id x = reviewId \<and> reaction_type x = ''dislike'')
                     (review_reactions st'))))
   \<and> (\<forall>v \<in> set (reviews_of (listReviews ord st query_page query_limit userId)).
        likes v = int (length (filter (\<lambda>x. review_id x = r_id v \<and> reaction_type x = ''like'')
                                 (review_reactions st)))
        \<and> dislikes v = int (length (filter (\<lambda>x. review_id x = r_id v
                                               \<and> reaction_type x = ''dislike'')
                                      (review_reactions st))))
   \<and> (\<forall>v \<in> set (admin_reviews_of
                   (searchReviews ord st admin query_page query_limit query_search)).
        likes v = int (length (filter (\<lambda>x. review_id x = r_id v \<and> reaction_type x = ''like'')
                                 (review_reactions st)))
        \<and> dislikes v = int (length (filter (\<lambda>x. review_id x = r_id v
                                               \<and> reaction_type x = ''dislike'')
                                      (review_reactions st))))"
proof (intro conjI impI ballI)
  assume "react now st req_user reviewId reactionType = (st', resp) \<and> status resp = 200"
  then show "body resp =
        CountsJson
          (length (filter (\<lambda>x. review_id x = reviewId \<and> reaction_type x = ''like'')
                     (review_reactions st')))
          (length (filter (\<lambda>x. review_id x = reviewId \<and> reaction_type x = ''dislike'')
                     (review_reactions st')))"
    by (auto simp add: react_def Let_def respond_def count_reactions_def
             split: if_splits option.splits)
next
  fix v assume "v \<in> set (reviews_of (listReviews ord st query_page query_limit userId))"
  then obtain r where v: "v = select_listing_row st r"
    using reviews_of_listReviews by blast
  show "likes v = int (length (filter (\<lambda>x. review_id x = r_id v \<and> reaction_type x = ''like'')
                                 (review_reactions st)))"
    by (simp add: v count_reactions_def)
  show "dislikes v = int (length (filter (\<lambda>x. review_id x = r_id v
                                               \<and> reaction_type x = ''dislike'')
                                      (review_reactions st)))"
    by (simp add: v count_reactions_def)
next
  fix v assume "v \<in> set (admin_reviews_of
                   (searchReviews ord st admin query_page query_limit query_search))"
  then obtain r where v: "v = select_admin_row st r"
    using admin_reviews_of_searchReviews by blast
  show "likes v = int (length (filter (\<lambda>x. review_id x = r_id v \<and> reaction_type x = ''like'')
                                 (review_reactions st)))"
    by (simp add: v count_reactions_def)
  show "dislikes v = int (length (filter (\<lambda>x. review_id x = r_id v
                                               \<and> reaction_type x = ''dislike'')
                                      (review_reactions st)))"
    by (simp add: v count_reactions_def)
qed

lemma sample_listing_ids:
  "map r_id (reviews_of (listReviews stable_order sample_store None None None)) = [1, 2, 3, 4]"
  "map r_id (admin_reviews_of
     (searchReviews stable_order sample_store admin_principal None None None)) = [1, 2, 3, 4]"
  by (simp_all add: eval_defs sample_defs stable_order_def)

text \<open>
  In the sample store every stored \<^verbatim>\<open>likes\<close> column is 0, review 1 has two likes
  and review 2 one; Jane's dislike of review 2 makes its counts 1 and 1.
\<close>

theorem counts_are_live_witness:
  "snd (react 10 sample_store jane 2 ''dislike'') = respond 200 (CountsJson 1 1)
   \<and> map likes (reviews sample_store) = [0, 0, 0, 0]
   \<and> map likes (reviews_of (listReviews stable_order sample_store None None None)) = [2, 1, 0, 0]
   \<and> map likes (admin_reviews_of
        (searchReviews stable_order sample_store admin_principal None None None)) = [2, 1, 0, 0]"
proof -
  let ?L = "reviews_of (listReviews stable_order sample_store None None None)"
  let ?A = "admin_reviews_of
     (searchReviews stable_order sample_store admin_principal None None None)"
  let ?n = "\<lambda>i. int (length (filter (\<lambda>x. review_id x = i \<and> reaction_type x = ''like'')
                (review_reactions sample_store)))"
  note T = counts_are_live [of 10 sample_store jane 2 "''dislike''"
      "fst (react 10 sample_store jane 2 ''dislike'')"
      "snd (react 10 sample_store jane 2 ''dislike'')"
      stable_order None None None admin_principal None]
  have run: "react 10 sample_store jane 2 ''dislike'' =
      (fst (react 10 sample_store jane 2 ''dislike''), snd (react 10 sample_store jane 2 ''dislike''))
      \<and> status (snd (react 10 sample_store jane 2 ''dislike'')) = 200"
    by (simp add: eval_defs sample_defs)
  with T have "body (snd (react 10 sample_store jane 2 ''dislike'')) =
      CountsJson
        (length (filter (\<lambda>x. review_id x = 2 \<and> reaction_type x = ''like'')
           (review_reactions (fst (react 10 sample_store jane 2 ''dislike'')))))
        (length (filter (\<lambda>x. review_id x = 2 \<and> reaction_type x = ''dislike'')
           (review_reactions (fst (react 10 sample_store jane 2 ''dislike'')))))"
    by blast
  also have "\<dots> = CountsJson 1 1"
    by (simp add: eval_defs sample_defs)
  finally have c1: "snd (react 10 sample_store jane 2 ''dislike'') = respond 200 (CountsJson 1 1)"
    using run by (cases "snd (react 10 sample_store jane 2 ''dislike'')") (simp add: respond_def)
  have c2: "map likes (reviews sample_store) = [0, 0, 0, 0]"
    by (simp add: sample_defs)
  from T have "\<forall>v \<in> set ?L. likes v = ?n (r_id v)" by blast
  then have "map likes ?L = map ?n (map r_id ?L)" by (simp add: comp_def)
  also have "\<dots> = [2, 1, 0, 0]"
    unfolding sample_listing_ids by (simp add: sample_defs)
  finally have c3: "map likes ?L = [2, 1, 0, 0]" .
  from T have "\<forall>v \<in> set ?A. likes v = ?n (r_id v)" by blast
  then have "map likes ?A = map ?n (map r_id ?A)" by (simp add: comp_def)
  also have "\<dots> = [2, 1, 0, 0]"
    unfolding sample_listing_ids by (simp add: sample_defs)
  finally have c4: "map likes ?A = [2, 1, 0, 0]" .
  from c1 c2 c3 c4 show ?thesis by simp
qed

subsection \<open>Creating a review\<close>








subsection \<open>Pagination\<close>












lemma or_default_Some_pos [simp]: "1 \<le> p \<Longrightarrow> or_default (Some (int p)) 1 = int p"
  by (simp add: or_default_def)

lemma reviews_of_respond [simp]:
  "reviews_of (respond code (ReviewsJson items pg)) = items"
  "admin_reviews_of (respond code (AdminReviewsJson items' pg)) = items'"
  by (simp_all add: reviews_of_def admin_reviews_of_def respond_def)








subsection \<open>The order of a listing\<close>











subsection \<open>Searching the comments\<close>










lemma comment_admin_row [simp]: "comment (select_admin_row st r) = comment r"
  by (simp add: select_admin_row_def)







end
